theory Spec2Isabelle
  imports Complex_Main "HOL-Library.AList"
begin

section \<open>Definition keys and their normalization (cli/coverage\_cmd.go)\<close>

text \<open>
  \<^verbatim>\<open>graph.DefKey\<close> is a struct of four strings, \<^verbatim>\<open>unit.SourceUnit\<close> a struct of
  which \<^verbatim>\<open>adjustDefKey\<close> and \<^verbatim>\<open>parseGraphData\<close> read the fields \<^verbatim>\<open>Type\<close> and
  \<^verbatim>\<open>Name\<close> only.
\<close>

record DefKey =
  Repo :: string
  UnitType :: string
  Unit :: string
  Path :: string

record SourceUnit =
  Type :: string
  Name :: string

text \<open>
  \<^verbatim>\<open>
  func adjustDefKey(key graph.DefKey, unit *unit.SourceUnit) graph.DefKey {
      ret := graph.DefKey{Repo: "", UnitType: key.UnitType, Unit: key.Unit, Path: key.Path}
      if ret.UnitType == "" { ret.UnitType = unit.Type }
      if ret.Unit == "" { ret.Unit = unit.Name }
      return ret
  }
  \<close>
\<close>

definition adjustDefKey :: "DefKey \<Rightarrow> SourceUnit \<Rightarrow> DefKey" where
  "adjustDefKey key unit =
     (let ret = \<lparr>Repo = '''', UnitType = UnitType key, Unit = Unit key, Path = Path key\<rparr>;
          ret = (if UnitType ret = '''' then ret\<lparr>UnitType := Type unit\<rparr> else ret);
          ret = (if Unit ret = '''' then ret\<lparr>Unit := Name unit\<rparr> else ret)
      in ret)"


section \<open>Floating point as far as the program uses it\<close>

text \<open>
  The program converts counters to \<^verbatim>\<open>float64\<close>, divides them, tests the quotient with
  \<^verbatim>\<open>math.IsNaN\<close> and compares it with a constant. A \<^verbatim>\<open>float64\<close> is modelled as a
  rational (every finite float is one), the two infinities or not-a-number. Rounding is a
  primitive of the language: \<open>rnd q\<close> stands for the \<^verbatim>\<open>float64\<close> nearest the exact
  value \<open>q\<close> and is a parameter of every function that divides floats. The
  negative zero is not represented: no conversion of an integer yields it, and no
  quotient of two converted non-negative counters does.
\<close>

datatype float64 = Finite rat | PosInf | NegInf | NaN

type_synonym rounding = "rat \<Rightarrow> float64"

text \<open>
  \<^verbatim>\<open>float64(n)\<close> for a counter \<open>n\<close>. The counters of this program are Go \<^verbatim>\<open>int\<close>s
  that count elements of slices held in memory and lines of files read into memory: they
  are natural numbers far below \<open>2 ^ 53\<close>, where the conversion is exact.
\<close>

definition float64_of_nat :: "nat \<Rightarrow> float64" where
  "float64_of_nat n = Finite (of_nat n)"

text \<open>
  The quotient \<^verbatim>\<open>x / y\<close> of IEEE 754: a zero divisor gives not-a-number for a zero
  dividend and an infinity otherwise; it never traps.
\<close>

fun fdiv :: "rounding \<Rightarrow> float64 \<Rightarrow> float64 \<Rightarrow> float64" where
  "fdiv rnd NaN y = NaN"
| "fdiv rnd x NaN = NaN"
| "fdiv rnd (Finite a) (Finite b) =
     (if b = 0 then (if a = 0 then NaN else if 0 < a then PosInf else NegInf)
      else rnd (a / b))"
| "fdiv rnd (Finite a) PosInf = Finite 0"
| "fdiv rnd (Finite a) NegInf = Finite 0"
| "fdiv rnd PosInf (Finite b) = (if 0 \<le> b then PosInf else NegInf)"
| "fdiv rnd NegInf (Finite b) = (if 0 \<le> b then NegInf else PosInf)"
| "fdiv rnd PosInf PosInf = NaN"
| "fdiv rnd PosInf NegInf = NaN"
| "fdiv rnd NegInf PosInf = NaN"
| "fdiv rnd NegInf NegInf = NaN"

text \<open>\<^verbatim>\<open>x > y\<close>: false as soon as one side is not-a-number.\<close>

fun fgt :: "float64 \<Rightarrow> float64 \<Rightarrow> bool" where
  "fgt NaN y = False"
| "fgt x NaN = False"
| "fgt (Finite a) (Finite b) = (b < a)"
| "fgt PosInf PosInf = False"
| "fgt PosInf y = True"
| "fgt x PosInf = False"
| "fgt NegInf y = False"
| "fgt (Finite a) NegInf = True"

definition IsNaN :: "float64 \<Rightarrow> bool" where
  "IsNaN q = (q = NaN)"

text \<open>
  \<^verbatim>\<open>const fileTokThresh float64 = 0.7\<close>: the \<^verbatim>\<open>float64\<close> nearest \<open>7/10\<close>, which is
  \<open>3152519739159347 / 2 ^ 52\<close>, a little below \<open>7/10\<close>.
\<close>

definition fileTokThresh :: float64 where
  "fileTokThresh = Finite (3152519739159347 / 4503599627370496)"

text \<open>
  \<^verbatim>\<open>
  func divideSentinel(x, y, sentinel float64) float64 {
      q := x / y
      if math.IsNaN(q) { return sentinel }
      return q
  }
  \<close>
\<close>

definition divideSentinel :: "rounding \<Rightarrow> float64 \<Rightarrow> float64 \<Rightarrow> float64 \<Rightarrow> float64" where
  "divideSentinel rnd x y sentinel =
     (let q = fdiv rnd x y in if IsNaN q then sentinel else q)"

section \<open>Counting lines (cli/coverage\_cmd.go)\<close>

text \<open>
  A \<^verbatim>\<open>[]byte\<close> is a \<open>string\<close>, a list of 8-bit characters. \<^verbatim>\<open>unicode.IsSpace\<close> on a
  rune below \<open>0x100\<close> (every \<^verbatim>\<open>rune(r)\<close> of a byte \<open>r\<close> is one) holds for
  \<^verbatim>\<open>'\t', '\n', '\v', '\f', '\r', ' '\<close>, \<open>0x85\<close> and \<open>0xA0\<close>.
\<close>

definition IsSpace :: "char \<Rightarrow> bool" where
  "IsSpace r = ((of_char r :: nat) \<in> {9, 10, 11, 12, 13, 32, 133, 160})"

text \<open>
  \<^verbatim>\<open>
  func isNotBlank(data []byte) bool {
      for _, r := range data {
          if !unicode.IsSpace(rune(r)) { return true }
      }
      return false
  }
  \<close>
\<close>

fun isNotBlank :: "string \<Rightarrow> bool" where
  "isNotBlank [] = False"
| "isNotBlank (r # data) = (if \<not> IsSpace r then True else isNotBlank data)"

text \<open>
  \<^verbatim>\<open>bytes.IndexByte(b, c)\<close>: the index of the first \<open>c\<close> in \<open>b\<close>; Go's \<open>-1\<close> is
  \<open>None\<close>. A slice expression \<^verbatim>\<open>data[lo:hi]\<close> within range is \<open>slice data lo hi\<close>.
\<close>

fun IndexByte :: "string \<Rightarrow> char \<Rightarrow> nat option" where
  "IndexByte [] c = None"
| "IndexByte (b # bs) c =
     (if b = c then Some 0 else map_option Suc (IndexByte bs c))"

definition slice :: "string \<Rightarrow> nat \<Rightarrow> nat \<Rightarrow> string" where
  "slice data lo hi = take (hi - lo) (drop lo data)"

definition newline :: char where
  "newline = CHR 0x0A"

subsection \<open>Comment stripping\<close>

text \<open>
  \<^verbatim>\<open>stripComments\<close> drives a \<^verbatim>\<open>text/scanner.Scanner\<close> of Go's standard library over
  the data, in the mode \<^verbatim>\<open>GoTokens\<close> without \<^verbatim>\<open>SkipComments\<close>, so that comments come
  back as tokens. The scanner is not code of this repository; it is a parameter of the
  model: \<open>scan data\<close> is the list of what the successive calls of \<^verbatim>\<open>s.Scan()\<close> on
  \<open>data\<close> return before \<^verbatim>\<open>scanner.EOF\<close>, each with the \<^verbatim>\<open>s.Pos().Offset\<close> and the
  \<^verbatim>\<open>s.TokenText()\<close> that follow it.
\<close>

record token =
  tok :: int
  pos_Offset :: nat
  TokenText :: string

type_synonym scanner = "string \<Rightarrow> token list"

definition Comment :: int where
  "Comment = - 8"

text \<open>
  A slice expression whose bounds are computed from the scanner's positions: Go panics
  unless \<open>0 \<le> lo \<le> hi \<le> cap data\<close> (the capacity is taken to be the length); the
  panic is \<open>None\<close>.
\<close>

definition slice_checked :: "string \<Rightarrow> nat \<Rightarrow> int \<Rightarrow> string option" where
  "slice_checked data lo hi =
     (if int lo \<le> hi \<and> hi \<le> int (length data) then Some (slice data lo (nat hi)) else None)"

text \<open>
  \<^verbatim>\<open>
  offset := 0
  tok := s.Scan()
  for tok != scanner.EOF {
      pos := s.Pos()
      if tok == scanner.Comment {
          ret = append(ret, data[offset:pos.Offset-len(s.TokenText())]...)
      } else {
          ret = append(ret, data[offset:pos.Offset]...)
      }
      offset = pos.Offset
      tok = s.Scan()
  }
  return append(ret, data[offset:]...)
  \<close>
\<close>

fun stripComments_loop :: "string \<Rightarrow> string \<Rightarrow> nat \<Rightarrow> token list \<Rightarrow> string option" where
  "stripComments_loop data ret offset [] =
     map_option (\<lambda>seg. ret @ seg) (slice_checked data offset (int (length data)))"
| "stripComments_loop data ret offset (t # ts) =
     (case slice_checked data offset
             (if tok t = Comment then int (pos_Offset t) - int (length (TokenText t))
              else int (pos_Offset t)) of
        None \<Rightarrow> None
      | Some seg \<Rightarrow> stripComments_loop data (ret @ seg) (pos_Offset t) ts)"

definition stripComments :: "scanner \<Rightarrow> string \<Rightarrow> string option" where
  "stripComments scan data = stripComments_loop data [] 0 (scan data)"

subsection \<open>numLines\<close>

text \<open>
  \<^verbatim>\<open>
  count := 1
  start := 0
  pos := bytes.IndexByte(data[start:], '\n')
  for pos != -1 && start < len {
      l := data[start : start+pos+1]
      if isNotBlank(l) { count++ }
      start += pos + 1
      pos = bytes.IndexByte(data[start:], '\n')
  }
  return count
  \<close>
  The loop, from the values of \<open>start\<close>, \<open>pos\<close> and \<open>count\<close> at its head.
\<close>

function numLines_loop :: "string \<Rightarrow> nat \<Rightarrow> nat option \<Rightarrow> nat \<Rightarrow> nat" where
  "numLines_loop data start pos count =
     (case pos of
        None \<Rightarrow> count
      | Some p \<Rightarrow>
          if start < length data then
            let l = slice data start (start + p + 1);
                count = (if isNotBlank l then count + 1 else count);
                start = start + (p + 1)
            in numLines_loop data start (IndexByte (drop start data) newline) count
          else count)"
  by pat_completeness auto
termination
  by (relation "measure (\<lambda>(data, start, pos, count). length data - start)") auto

text \<open>The body of \<^verbatim>\<open>numLines\<close> below the call of \<^verbatim>\<open>stripComments\<close>.\<close>

definition countLines :: "string \<Rightarrow> nat" where
  "countLines data =
     (let len = length data in
      if len = 0 then 0
      else numLines_loop data 0 (IndexByte (drop 0 data) newline) 1)"

definition numLines :: "scanner \<Rightarrow> string \<Rightarrow> nat option" where
  "numLines scan data = map_option countLines (stripComments scan data)"

text \<open>
  The count as the specification words it, for comparison: the segments of the data are
  its newline-terminated lines and, when the data does not end in a newline, the
  newline-less rest; the count is the number of segments with a non-whitespace byte.
\<close>

function segments :: "string \<Rightarrow> string list" where
  "segments data =
     (if data = [] then []
      else case IndexByte data newline of
             None \<Rightarrow> [data]
           | Some p \<Rightarrow> take (p + 1) data # segments (drop (p + 1) data))"
  by pat_completeness auto
termination
  by (relation "measure length") auto

definition spec_lineCount :: "string \<Rightarrow> nat" where
  "spec_lineCount data = length (filter isNotBlank (segments data))"

text \<open>A segment that ends in a newline.\<close>

definition terminated :: "string \<Rightarrow> bool" where
  "terminated l = (l \<noteq> [] \<and> last l = newline)"

section \<open>Errors\<close>

text \<open>
  The values of Go's \<^verbatim>\<open>error\<close> that the program tells apart: \<^verbatim>\<open>filepath.SkipDir\<close>,
  the package's \<^verbatim>\<open>errEmptyJSONFile\<close>, an error for which \<^verbatim>\<open>os.IsNotExist\<close> holds, and
  any other error; the last two carry their message.
\<close>

datatype error = SkipDir | errEmptyJSONFile | NotExist string | Other string

fun IsNotExist :: "error \<Rightarrow> bool" where
  "IsNotExist (NotExist m) = True"
| "IsNotExist e = False"

text \<open>
  Modelled from the spec: the declaration of \<^verbatim>\<open>errEmptyJSONFile\<close> is not among the
  sources (the specification calls it the condition of an artifact that exists but is
  syntactically empty), so its message is not known; the program formats an error's
  message only where the error is not \<^verbatim>\<open>errEmptyJSONFile\<close>.
\<close>

fun Error :: "error \<Rightarrow> string" where
  "Error SkipDir = ''skip this directory''"
| "Error errEmptyJSONFile = ''empty JSON file''"
| "Error (NotExist m) = m"
| "Error (Other m) = m"

section \<open>The file inventory (coverage, the tree walk)\<close>

record codeFileDatum =
  LoC :: nat
  NumRefs :: nat
  NumDefs :: nat
  NumRefsValid :: nat
  Language :: string

text \<open>
  \<^verbatim>\<open>codeFileData\<close> is a \<^verbatim>\<open>map[string]*codeFileDatum\<close>: an association list with one
  entry per key, kept in the order of insertion. Go leaves the order in which
  \<^verbatim>\<open>range\<close> visits a map open; the model visits the list from its head.
\<close>

type_synonym inventory = "(string \<times> codeFileDatum) list"

definition extToLang :: "string \<rightharpoonup> string" where
  "extToLang = map_of
     [(''.go'', ''Go''), (''.java'', ''Java''), (''.py'', ''Python''), (''.rb'', ''Ruby''),
      (''.cpp'', ''C++''), (''.ts'', ''TypeScript''), (''.cs'', ''C#''),
      (''.js'', ''JavaScript''), (''.php'', ''PHP''), (''.m'', ''Objective-C'')]"

text \<open>
  \<^verbatim>\<open>filepath.Ext\<close>: the suffix of the path from the last dot of its last element, empty
  when that element has no dot. The loop runs from the end of the path towards its head.
  \<^verbatim>\<open>
  for i := len(path) - 1; i >= 0 && !os.IsPathSeparator(path[i]); i-- {
      if path[i] == '.' { return path[i:] }
  }
  return ""
  \<close>
\<close>

fun Ext_loop :: "string \<Rightarrow> string \<Rightarrow> string" where
  "Ext_loop [] suffix = []"
| "Ext_loop (c # front) suffix =
     (if c = CHR ''/'' then []
      else if c = CHR ''.'' then c # suffix
      else Ext_loop front (c # suffix))"

definition Ext :: "string \<Rightarrow> string" where
  "Ext path = Ext_loop (rev path) []"

definition HasPrefix :: "string \<Rightarrow> string \<Rightarrow> bool" where
  "HasPrefix s prefix = (take (length prefix) s = prefix)"

text \<open>
  The tree under \<^verbatim>\<open>repo.RootDir\<close> as \<^verbatim>\<open>filepath.Walk\<close> finds it: a file with its name and
  with what \<^verbatim>\<open>ioutil.ReadFile\<close> of it returns, or a directory with its name and its entries
  in lexical order. \<^verbatim>\<open>RootDir\<close> is an absolute path, so the function passed to \<^verbatim>\<open>Walk\<close>
  makes every path relative to it, and \<^verbatim>\<open>ToSlash\<close> separates by slashes: the model
  builds this relative path directly (a single dot for the root).
\<close>

datatype node = FileNode string "error + string" | DirNode string "node list"

fun node_Name :: "node \<Rightarrow> string" where
  "node_Name (FileNode name content) = name"
| "node_Name (DirNode name entries) = name"

fun IsDir :: "node \<Rightarrow> bool" where
  "IsDir (FileNode name content) = False"
| "IsDir (DirNode name entries) = True"

definition Join :: "string \<Rightarrow> string \<Rightarrow> string" where
  "Join dir name = (if dir = ''.'' then name else dir @ ''/'' @ name)"

text \<open>
  The function literal passed to \<^verbatim>\<open>filepath.Walk\<close>. It returns an error or \<^verbatim>\<open>nil\<close>
  (\<open>None\<close>) and updates \<^verbatim>\<open>codeFileData\<close>; the outer \<open>None\<close> is the panic of
  \<^verbatim>\<open>numLines\<close>.
  \<^verbatim>\<open>
  if info.IsDir() {
      if strings.HasPrefix(info.Name(), ".") { return filepath.SkipDir }
      return nil
  }
  path = filepath.ToSlash(path)
  ext := filepath.Ext(path)
  if lang, isCodeFile := extToLang[ext]; isCodeFile {
      b, err := ioutil.ReadFile(path)
      if err != nil { return err }
      loc := numLines(b)
      codeFileData[path] = &codeFileDatum{LoC: loc, Language: lang}
  }
  return nil
  \<close>
\<close>

fun walkFn :: "scanner \<Rightarrow> string \<Rightarrow> node \<Rightarrow> inventory \<Rightarrow> (error option \<times> inventory) option" where
  "walkFn scan path (DirNode name entries) codeFileData =
     (if HasPrefix name ''.'' then Some (Some SkipDir, codeFileData)
      else Some (None, codeFileData))"
| "walkFn scan path (FileNode name content) codeFileData =
     (case extToLang (Ext path) of
        None \<Rightarrow> Some (None, codeFileData)
      | Some lang \<Rightarrow>
          (case content of
             Inl err \<Rightarrow> Some (Some err, codeFileData)
           | Inr b \<Rightarrow>
               (case numLines scan b of
                  None \<Rightarrow> None
                | Some loc \<Rightarrow>
                    Some (None,
                      AList.update path
                        \<lparr>LoC = loc, NumRefs = 0, NumDefs = 0, NumRefsValid = 0, Language = lang\<rparr>
                        codeFileData))))"

text \<open>
  \<^verbatim>\<open>filepath.Walk\<close> of the standard library: it calls the function for the root and for
  every entry below it, a directory before its entries. \<^verbatim>\<open>SkipDir\<close> returned for a
  directory skips its entries; returned for a file it skips the rest of the containing
  directory; any other error ends the walk, and \<^verbatim>\<open>Walk\<close> returns it.
\<close>

fun walk :: "scanner \<Rightarrow> string \<Rightarrow> node \<Rightarrow> inventory \<Rightarrow> (error option \<times> inventory) option"
  and walk_entries :: "scanner \<Rightarrow> string \<Rightarrow> node list \<Rightarrow> inventory \<Rightarrow> (error option \<times> inventory) option"
where
  "walk scan path (FileNode name content) cfd = walkFn scan path (FileNode name content) cfd"
| "walk scan path (DirNode name entries) cfd =
     (case walkFn scan path (DirNode name entries) cfd of
        None \<Rightarrow> None
      | Some (Some err, cfd') \<Rightarrow> if err = SkipDir then Some (None, cfd') else Some (Some err, cfd')
      | Some (None, cfd') \<Rightarrow> walk_entries scan path entries cfd')"
| "walk_entries scan dir [] cfd = Some (None, cfd)"
| "walk_entries scan dir (entry # entries) cfd =
     (case walk scan (Join dir (node_Name entry)) entry cfd of
        None \<Rightarrow> None
      | Some (Some err, cfd') \<Rightarrow>
          if \<not> IsDir entry \<or> err \<noteq> SkipDir then Some (Some err, cfd')
          else walk_entries scan dir entries cfd'
      | Some (None, cfd') \<Rightarrow> walk_entries scan dir entries cfd')"

definition Walk :: "scanner \<Rightarrow> node \<Rightarrow> inventory \<Rightarrow> (error option \<times> inventory) option" where
  "Walk scan tree cfd = walk scan ''.'' tree cfd"

section \<open>The analysis graph and its loader (coverage, parseGraphData)\<close>

text \<open>
  Modelled from the spec: \<^verbatim>\<open>graph.Def\<close>, \<^verbatim>\<open>graph.Ref\<close>, \<^verbatim>\<open>graph.Output\<close> and the methods
  \<^verbatim>\<open>Ref.DefKey\<close> and \<^verbatim>\<open>Ref.SetFromDefKey\<close> are declared in the graph package, in files
  that are not among the sources. The source reads \<^verbatim>\<open>def.DefKey\<close>, \<^verbatim>\<open>def.File\<close>,
  \<^verbatim>\<open>ref.File\<close> and \<^verbatim>\<open>ref.DefRepo\<close>, and ranges over \<^verbatim>\<open>item.Defs\<close> and \<^verbatim>\<open>item.Refs\<close>,
  the latter a slice of pointers (\<^verbatim>\<open>[]*graph.Ref\<close>). The specification says that a
  reference's key carries the originating-repository field (the reference's defining
  repository), a unit-type, a unit-name and an in-unit path: \<^verbatim>\<open>DefKey()\<close> builds the key
  from these four fields of the reference, and \<^verbatim>\<open>SetFromDefKey\<close> stores a key back
  into them.
\<close>

record Def =
  Def_DefKey :: DefKey
  Def_File :: string

record Ref =
  DefRepo :: string
  DefUnitType :: string
  DefUnit :: string
  DefPath :: string
  Ref_File :: string

record Output =
  Defs :: "Def list"
  Refs :: "Ref list"

definition Ref_DefKey :: "Ref \<Rightarrow> DefKey" where
  "Ref_DefKey r = \<lparr>Repo = DefRepo r, UnitType = DefUnitType r, Unit = DefUnit r, Path = DefPath r\<rparr>"

definition SetFromDefKey :: "DefKey \<Rightarrow> Ref \<Rightarrow> Ref" where
  "SetFromDefKey k r =
     r\<lparr>DefPath := Path k, DefUnitType := UnitType k, DefRepo := Repo k, DefUnit := Unit k\<rparr>"

text \<open>
  The build plan's rules: \<^verbatim>\<open>*grapher.GraphUnitRule\<close> with its \<^verbatim>\<open>Target()\<close> and its
  \<^verbatim>\<open>Unit\<close>, \<^verbatim>\<open>*grapher.GraphMultiUnitsRule\<close> with its \<^verbatim>\<open>Targets()\<close> (a map, here the
  list of its entries in the order \<^verbatim>\<open>range\<close> visits them), or any other rule.
\<close>

datatype rule =
  GraphUnitRule string SourceUnit
| GraphMultiUnitsRule "(string \<times> SourceUnit) list"
| OtherRule

text \<open>
  What \<^verbatim>\<open>parseGraphData\<close> captures and changes: \<^verbatim>\<open>defKeys\<close>, \<^verbatim>\<open>data\<close>, and the lines
  written by \<^verbatim>\<open>log.Printf\<close>. The build-data file system enters through
  \<^verbatim>\<open>readJSONFileFS(bdfs, graphFile, &item)\<close> only: \<open>bdfs graphFile\<close> is the error it
  returns or the \<^verbatim>\<open>graph.Output\<close> it decodes.
\<close>

record loader =
  defKeys :: "DefKey set"
  data :: "Output list"
  logged :: "string list"

type_synonym buildData = "string \<Rightarrow> error + Output"

text \<open>
  \<^verbatim>\<open>
  parseGraphData := func(graphFile string, sourceUnit *unit.SourceUnit) error {
      var item graph.Output
      if err := readJSONFileFS(bdfs, graphFile, &item); err != nil {
          if err == errEmptyJSONFile {
              log.Printf("Warning: the JSON file is empty for unit %s %s.", sourceUnit.Type, sourceUnit.Name)
              return nil
          }
          if os.IsNotExist(err) {
              log.Printf("Warning: no build data for unit %s %s.", sourceUnit.Type, sourceUnit.Name)
              return nil
          }
          return fmt.Errorf("error reading JSON file %s for unit %s %s: %s", graphFile, sourceUnit.Type, sourceUnit.Name, err)
      }
      data = append(data, item)
      for _, def := range item.Defs {
          defKeys[adjustDefKey(def.DefKey, sourceUnit)] = struct{}{}
      }
      for _, ref := range item.Refs {
          ref.SetFromDefKey(adjustDefKey(ref.DefKey(), sourceUnit))
      }
      return nil
  }
  \<close>
  The item appended to \<^verbatim>\<open>data\<close> shares its \<^verbatim>\<open>*graph.Ref\<close> pointers with \<^verbatim>\<open>item\<close>, so
  the references that the last loop rewrites are the ones \<^verbatim>\<open>data\<close> holds: the model
  appends the item with its references rewritten.
\<close>

definition parseGraphData :: "buildData \<Rightarrow> string \<Rightarrow> SourceUnit \<Rightarrow> loader \<Rightarrow> error option \<times> loader" where
  "parseGraphData bdfs graphFile sourceUnit st =
     (case bdfs graphFile of
        Inl err \<Rightarrow>
          if err = errEmptyJSONFile then
            (None, st\<lparr>logged := logged st @
               [''Warning: the JSON file is empty for unit '' @ Type sourceUnit @ '' '' @ Name sourceUnit @ ''.'']\<rparr>)
          else if IsNotExist err then
            (None, st\<lparr>logged := logged st @
               [''Warning: no build data for unit '' @ Type sourceUnit @ '' '' @ Name sourceUnit @ ''.'']\<rparr>)
          else
            (Some (Other (''error reading JSON file '' @ graphFile @ '' for unit '' @ Type sourceUnit
                          @ '' '' @ Name sourceUnit @ '': '' @ Error err)), st)
      | Inr item \<Rightarrow>
          (None,
           st\<lparr>data := data st @
                 [item\<lparr>Refs := map (\<lambda>ref. SetFromDefKey (adjustDefKey (Ref_DefKey ref) sourceUnit) ref)
                                   (Refs item)\<rparr>],
              defKeys := foldl (\<lambda>keys def. insert (adjustDefKey (Def_DefKey def) sourceUnit) keys)
                           (defKeys st) (Defs item)\<rparr>))"

text \<open>
  \<^verbatim>\<open>
  for _, rule_ := range mf.Rules {
      switch rule := rule_.(type) {
      case *grapher.GraphUnitRule:
          if err := parseGraphData(rule.Target(), rule.Unit); err != nil { return nil, err }
      case *grapher.GraphMultiUnitsRule:
          for target, sourceUnit := range rule.Targets() {
              if err := parseGraphData(target, sourceUnit); err != nil { return nil, err }
          }
      }
  }
  \<close>
\<close>

fun loadTargets :: "buildData \<Rightarrow> (string \<times> SourceUnit) list \<Rightarrow> loader \<Rightarrow> error option \<times> loader" where
  "loadTargets bdfs [] st = (None, st)"
| "loadTargets bdfs ((target, sourceUnit) # targets) st =
     (case parseGraphData bdfs target sourceUnit st of
        (Some err, st') \<Rightarrow> (Some err, st')
      | (None, st') \<Rightarrow> loadTargets bdfs targets st')"

fun loadRules :: "buildData \<Rightarrow> rule list \<Rightarrow> loader \<Rightarrow> error option \<times> loader" where
  "loadRules bdfs [] st = (None, st)"
| "loadRules bdfs (GraphUnitRule target sourceUnit # rules) st =
     (case parseGraphData bdfs target sourceUnit st of
        (Some err, st') \<Rightarrow> (Some err, st')
      | (None, st') \<Rightarrow> loadRules bdfs rules st')"
| "loadRules bdfs (GraphMultiUnitsRule targets # rules) st =
     (case loadTargets bdfs targets st of
        (Some err, st') \<Rightarrow> (Some err, st')
      | (None, st') \<Rightarrow> loadRules bdfs rules st')"
| "loadRules bdfs (OtherRule # rules) st = loadRules bdfs rules st"

section \<open>The aggregator (coverage)\<close>

text \<open>
  \<^verbatim>\<open>
  for _, item := range data {
      var validRefs []*graph.Ref
      for _, ref := range item.Refs {
          if datum, exists := codeFileData[ref.File]; exists {
              datum.NumRefs++
              if ref.DefRepo != "" {
                  validRefs = append(validRefs, ref)
                  datum.NumRefsValid++
              } else if _, defExists := defKeys[ref.DefKey()]; defExists {
                  validRefs = append(validRefs, ref)
                  datum.NumRefsValid++
              }
          }
      }
      for _, def := range item.Defs {
          if datum, exists := codeFileData[def.File]; exists {
              datum.NumDefs++
          }
      }
  }
  \<close>
  \<^verbatim>\<open>validRefs\<close> is written and never read. The map holds pointers, so an increment of
  \<^verbatim>\<open>datum\<close> changes the entry under its key.
\<close>

definition foldRef :: "DefKey set \<Rightarrow> inventory \<Rightarrow> Ref \<Rightarrow> inventory" where
  "foldRef keys codeFileData ref =
     (case map_of codeFileData (Ref_File ref) of
        None \<Rightarrow> codeFileData
      | Some _ \<Rightarrow>
          AList.map_entry (Ref_File ref)
            (\<lambda>datum.
               let datum = datum\<lparr>NumRefs := NumRefs datum + 1\<rparr> in
               if DefRepo ref \<noteq> [] then datum\<lparr>NumRefsValid := NumRefsValid datum + 1\<rparr>
               else if Ref_DefKey ref \<in> keys then datum\<lparr>NumRefsValid := NumRefsValid datum + 1\<rparr>
               else datum)
            codeFileData)"

definition foldDef :: "inventory \<Rightarrow> Def \<Rightarrow> inventory" where
  "foldDef codeFileData def =
     (case map_of codeFileData (Def_File def) of
        None \<Rightarrow> codeFileData
      | Some _ \<Rightarrow>
          AList.map_entry (Def_File def) (\<lambda>datum. datum\<lparr>NumDefs := NumDefs datum + 1\<rparr>)
            codeFileData)"

definition foldItem :: "DefKey set \<Rightarrow> inventory \<Rightarrow> Output \<Rightarrow> inventory" where
  "foldItem keys codeFileData item =
     foldl foldDef (foldl (foldRef keys) codeFileData (Refs item)) (Defs item)"

definition foldData :: "DefKey set \<Rightarrow> inventory \<Rightarrow> Output list \<Rightarrow> inventory" where
  "foldData keys codeFileData items = foldl (foldItem keys) codeFileData items"

text \<open>
  \<^verbatim>\<open>
  stats := make(map[string]*langStats)
  for file, datum := range codeFileData {
      if _, exist := stats[datum.Language]; !exist {
          stats[datum.Language] = &langStats{}
      }
      s := stats[datum.Language]
      s.numFiles++
      s.loc += datum.LoC
      s.numDefs += datum.NumDefs
      s.numRefs += datum.NumRefs
      s.numRefsValid += datum.NumRefsValid
      if float64(datum.NumDefs+datum.NumRefsValid)/float64(datum.LoC) > fileTokThresh {
          s.numIndexedFiles++
      } else {
          s.uncoveredFiles = append(s.uncoveredFiles, file)
      }
  }
  \<close>
\<close>

record langStats =
  numFiles :: nat
  numIndexedFiles :: nat
  numDefs :: nat
  numRefs :: nat
  numRefsValid :: nat
  uncoveredFiles :: "string list"
  loc :: nat

definition langStats_zero :: langStats where
  "langStats_zero =
     \<lparr>numFiles = 0, numIndexedFiles = 0, numDefs = 0, numRefs = 0, numRefsValid = 0,
      uncoveredFiles = [], loc = 0\<rparr>"

text \<open>The condition of the \<^verbatim>\<open>if\<close>: the file's quotient exceeds the threshold.\<close>

definition fileCovered :: "rounding \<Rightarrow> codeFileDatum \<Rightarrow> bool" where
  "fileCovered rnd datum =
     fgt (fdiv rnd (float64_of_nat (NumDefs datum + NumRefsValid datum))
                   (float64_of_nat (LoC datum)))
         fileTokThresh"

text \<open>The body of the loop from \<^verbatim>\<open>s.numFiles++\<close> on, as a change of the bucket \<open>s\<close>.\<close>

definition addFile :: "rounding \<Rightarrow> string \<Rightarrow> codeFileDatum \<Rightarrow> langStats \<Rightarrow> langStats" where
  "addFile rnd file datum s =
     (let s = s\<lparr>numFiles := numFiles s + 1\<rparr>;
          s = s\<lparr>loc := loc s + LoC datum\<rparr>;
          s = s\<lparr>numDefs := numDefs s + NumDefs datum\<rparr>;
          s = s\<lparr>numRefs := numRefs s + NumRefs datum\<rparr>;
          s = s\<lparr>numRefsValid := numRefsValid s + NumRefsValid datum\<rparr>
      in if fileCovered rnd datum then s\<lparr>numIndexedFiles := numIndexedFiles s + 1\<rparr>
         else s\<lparr>uncoveredFiles := uncoveredFiles s @ [file]\<rparr>)"

definition statsStep :: "rounding \<Rightarrow> (string \<times> langStats) list \<Rightarrow> string \<times> codeFileDatum \<Rightarrow> (string \<times> langStats) list" where
  "statsStep rnd stats entry =
     (let file = fst entry; datum = snd entry;
          stats = (case map_of stats (Language datum) of
                     None \<Rightarrow> AList.update (Language datum) langStats_zero stats
                   | Some _ \<Rightarrow> stats)
      in AList.map_entry (Language datum) (addFile rnd file datum) stats)"

definition computeStats :: "rounding \<Rightarrow> inventory \<Rightarrow> (string \<times> langStats) list" where
  "computeStats rnd codeFileData = foldl (statsStep rnd) [] codeFileData"

text \<open>
  \<^verbatim>\<open>
  cov := make(map[string]*cvg.Coverage)
  for lang, s := range stats {
      cov[lang] = &cvg.Coverage{
          FileScore:      divideSentinel(float64(s.numIndexedFiles), float64(s.numFiles), -1),
          RefScore:       divideSentinel(float64(s.numRefsValid), float64(s.numRefs), -1),
          TokDensity:     divideSentinel(float64(s.numDefs+s.numRefs), float64(s.loc), -1),
          UncoveredFiles: s.uncoveredFiles,
      }
  }
  return cov, nil
  \<close>
  \<^verbatim>\<open>cvg.Coverage\<close> is declared outside the sources; the composite literal names its four
  fields, the first three are given a \<^verbatim>\<open>float64\<close>.
\<close>

record Coverage =
  FileScore :: float64
  RefScore :: float64
  TokDensity :: float64
  UncoveredFiles :: "string list"

definition langCoverage :: "rounding \<Rightarrow> langStats \<Rightarrow> Coverage" where
  "langCoverage rnd s =
     \<lparr>FileScore = divideSentinel rnd (float64_of_nat (numIndexedFiles s))
                    (float64_of_nat (numFiles s)) (Finite (- 1)),
      RefScore = divideSentinel rnd (float64_of_nat (numRefsValid s))
                   (float64_of_nat (numRefs s)) (Finite (- 1)),
      TokDensity = divideSentinel rnd (float64_of_nat (numDefs s + numRefs s))
                     (float64_of_nat (loc s)) (Finite (- 1)),
      UncoveredFiles = uncoveredFiles s\<rparr>"

definition emit :: "rounding \<Rightarrow> (string \<times> langStats) list \<Rightarrow> (string \<times> Coverage) list" where
  "emit rnd stats = map (\<lambda>(lang, s). (lang, langCoverage rnd s)) stats"

text \<open>
  What \<^verbatim>\<open>coverage\<close> reads from outside: the tree under \<^verbatim>\<open>repo.RootDir\<close>, and the results
  of \<^verbatim>\<open>GetBuildDataFS(repo.CommitID)\<close>, of \<^verbatim>\<open>config.ReadCached(bdfs)\<close> (its error, the
  configuration being handed on unread) and of \<^verbatim>\<open>plan.CreateMakefile\<close> (its error or
  \<^verbatim>\<open>mf.Rules\<close>).
\<close>

record world =
  tree :: node
  GetBuildDataFS :: "error + buildData"
  ReadCached :: "error option"
  CreateMakefile :: "error + rule list"

text \<open>
  \<^verbatim>\<open>
  func coverage(repo *Repo) (map[string]*cvg.Coverage, error) {
      codeFileData := make(map[string]*codeFileDatum)
      filepath.Walk(repo.RootDir, func(path string, info os.FileInfo, err error) error { ... })
      bdfs, err := GetBuildDataFS(repo.CommitID)
      if err != nil { return nil, err }
      treeConfig, err := config.ReadCached(bdfs)
      if err != nil { return nil, fmt.Errorf("error calling config.ReadCached: %s", err) }
      mf, err := plan.CreateMakefile(".", nil, "", treeConfig)
      if err != nil { return nil, fmt.Errorf("error calling plan.Makefile: %s", err) }
      defKeys := make(map[graph.DefKey]struct{})
      data := make([]graph.Output, 0, len(mf.Rules))
      ...
  }
  \<close>
  The call of \<^verbatim>\<open>filepath.Walk\<close> is an expression statement: what \<^verbatim>\<open>Walk\<close> returns is
  not bound to anything. The result of the model is \<open>None\<close> for a panic, and otherwise
  the lines logged together with the error or the mapping returned.
\<close>

definition coverage :: "rounding \<Rightarrow> scanner \<Rightarrow> world \<Rightarrow> (string list \<times> (error + (string \<times> Coverage) list)) option" where
  "coverage rnd scan w =
     (case Walk scan (tree w) [] of
        None \<Rightarrow> None
      | Some (walkErr, codeFileData) \<Rightarrow>
          Some
            (case GetBuildDataFS w of
               Inl err \<Rightarrow> ([], Inl err)
             | Inr bdfs \<Rightarrow>
                 (case ReadCached w of
                    Some err \<Rightarrow> ([], Inl (Other (''error calling config.ReadCached: '' @ Error err)))
                  | None \<Rightarrow>
                      (case CreateMakefile w of
                         Inl err \<Rightarrow> ([], Inl (Other (''error calling plan.Makefile: '' @ Error err)))
                       | Inr rules \<Rightarrow>
                           (case loadRules bdfs rules \<lparr>defKeys = {}, data = [], logged = []\<rparr> of
                              (Some err, st) \<Rightarrow> (logged st, Inl err)
                            | (None, st) \<Rightarrow>
                                (logged st,
                                 Inr (emit rnd
                                        (computeStats rnd
                                           (foldData (defKeys st) codeFileData (data st))))))))))"

section \<open>The cached local repository (src/repo\_opt.go)\<close>

text \<open>
  \<^verbatim>\<open>
  var (
      localRepo    *Repo
      localRepoErr error
      CacheLocalRepo = true
  )

  func openLocalRepo() (*Repo, error) {
      if !CacheLocalRepo {
          return OpenRepo(".")
      }
      if localRepo == nil && localRepoErr == nil {
          localRepo, localRepoErr = OpenRepo(".")
      }
      return localRepo, localRepoErr
  }
  \<close>
  The package's variables are a record, with a counter of the calls of \<^verbatim>\<open>OpenRepo\<close>
  added to it (the program has no such variable). \<^verbatim>\<open>OpenRepo\<close> is declared outside the
  sources; what it returns depends on the working directory at the time of the call,
  and is an argument of the model: an error or a repository, which \<open>returned\<close> turns
  into the pair of Go.
\<close>

record 'repo vars =
  localRepo :: "'repo option"
  localRepoErr :: "error option"
  CacheLocalRepo :: bool
  OpenRepo_calls :: nat

fun returned :: "error + 'repo \<Rightarrow> 'repo option \<times> error option" where
  "returned (Inl err) = (None, Some err)"
| "returned (Inr repo) = (Some repo, None)"

definition openLocalRepo :: "error + 'repo \<Rightarrow> 'repo vars \<Rightarrow> ('repo option \<times> error option) \<times> 'repo vars" where
  "openLocalRepo OpenRepo v =
     (if \<not> CacheLocalRepo v then
        (returned OpenRepo, v\<lparr>OpenRepo_calls := OpenRepo_calls v + 1\<rparr>)
      else
        let v = (if localRepo v = None \<and> localRepoErr v = None
                 then v\<lparr>localRepo := fst (returned OpenRepo),
                        localRepoErr := snd (returned OpenRepo),
                        OpenRepo_calls := OpenRepo_calls v + 1\<rparr>
                 else v)
        in ((localRepo v, localRepoErr v), v))"

text \<open>
  A run of calls of \<^verbatim>\<open>openLocalRepo\<close>, one for each element of the list: the element
  is what \<^verbatim>\<open>OpenRepo(".")\<close> returns, or would return, at the time of that call.
\<close>

fun openLocalRepo_run :: "(error + 'repo) list \<Rightarrow> 'repo vars \<Rightarrow> ('repo option \<times> error option) list \<times> 'repo vars" where
  "openLocalRepo_run [] v = ([], v)"
| "openLocalRepo_run (OpenRepo # later) v =
     (case openLocalRepo OpenRepo v of
        (r, v') \<Rightarrow> (case openLocalRepo_run later v' of (rs, v'') \<Rightarrow> (r # rs, v'')))"

section \<open>Example inputs\<close>

text \<open>
  What \<^verbatim>\<open>text/scanner\<close> returns on the file contents of the examples below: the empty
  file has no token; \<^verbatim>\<open>x\<close> and \<^verbatim>\<open>a\n\<close> have one, an identifier (\<^verbatim>\<open>scanner.Ident\<close> is
  \<open>-2\<close>) that ends at offset 1.
\<close>

definition Ident :: int where
  "Ident = - 2"

definition example_scan :: scanner where
  "example_scan content =
     (if content = ''x'' then [\<lparr>tok = Ident, pos_Offset = 1, TokenText = ''x''\<rparr>]
      else if content = [CHR ''a'', newline] then [\<lparr>tok = Ident, pos_Offset = 1, TokenText = ''a''\<rparr>]
      else [])"

definition example_unit :: SourceUnit where
  "example_unit = \<lparr>Type = ''GoPackage'', Name = ''a''\<rparr>"

text \<open>
  A repository with the single file \<^verbatim>\<open>a.go\<close>, of zero bytes, and one unit whose artifact
  \<^verbatim>\<open>a.json\<close> declares one definition in \<^verbatim>\<open>a.go\<close>.
\<close>

definition bdfs_one_def :: buildData where
  "bdfs_one_def file =
     (if file = ''a.json''
      then Inr \<lparr>Defs = [\<lparr>Def_DefKey = \<lparr>Repo = [], UnitType = [], Unit = [], Path = ''F''\<rparr>,
                          Def_File = ''a.go''\<rparr>],
                Refs = []\<rparr>
      else Inl (NotExist ''file does not exist''))"

definition world_empty_file :: world where
  "world_empty_file =
     \<lparr>tree = DirNode ''repo'' [FileNode ''a.go'' (Inr [])],
      GetBuildDataFS = Inr bdfs_one_def,
      ReadCached = None,
      CreateMakefile = Inr [GraphUnitRule ''a.json'' example_unit]\<rparr>"

text \<open>
  A repository with the files \<^verbatim>\<open>a.go\<close>, \<^verbatim>\<open>b.go\<close> and \<^verbatim>\<open>c.go\<close>, of which \<^verbatim>\<open>b.go\<close> cannot
  be read, and a build plan without rules.
\<close>

definition world_unreadable_file :: world where
  "world_unreadable_file =
     \<lparr>tree = DirNode ''repo''
               [FileNode ''a.go'' (Inr ''x''),
                FileNode ''b.go'' (Inl (Other ''permission denied'')),
                FileNode ''c.go'' (Inr ''x'')],
      GetBuildDataFS = Inr (\<lambda>file. Inl (NotExist ''file does not exist'')),
      ReadCached = None,
      CreateMakefile = Inr []\<rparr>"

text \<open>
  A repository with the single file \<^verbatim>\<open>a.go\<close> of one line, and one unit whose artifact
  declares no definition and one reference in \<^verbatim>\<open>a.go\<close> to a definition of another
  repository.
\<close>

definition bdfs_external_ref :: buildData where
  "bdfs_external_ref file =
     (if file = ''a.json''
      then Inr \<lparr>Defs = [],
                Refs = [\<lparr>DefRepo = ''github.com/x/y'', DefUnitType = ''GoPackage'',
                          DefUnit = ''y'', DefPath = ''F'', Ref_File = ''a.go''\<rparr>]\<rparr>
      else Inl (NotExist ''file does not exist''))"

definition world_external_ref :: world where
  "world_external_ref =
     \<lparr>tree = DirNode ''repo'' [FileNode ''a.go'' (Inr ''x'')],
      GetBuildDataFS = Inr bdfs_external_ref,
      ReadCached = None,
      CreateMakefile = Inr [GraphUnitRule ''a.json'' example_unit]\<rparr>"



section \<open>Evaluating the examples\<close>

lemmas walk_defs = Walk_def HasPrefix_def Join_def Ext_def extToLang_def numLines_def
  stripComments_def slice_checked_def slice_def countLines_def example_scan_def newline_def
  Comment_def Ident_def IsSpace_def

lemmas stats_defs = computeStats_def statsStep_def addFile_def fileCovered_def langStats_zero_def
  float64_of_nat_def fileTokThresh_def emit_def langCoverage_def divideSentinel_def IsNaN_def

lemmas fold_defs = foldData_def foldItem_def foldRef_def foldDef_def Ref_DefKey_def

lemmas load_defs = parseGraphData_def adjustDefKey_def SetFromDefKey_def Ref_DefKey_def
  example_unit_def

lemmas case_simps = world.simps loader.simps option.case prod.case sum.case

lemma Walk_of_empty_file:
  "Walk example_scan (DirNode ''repo'' [FileNode ''a.go'' (Inr [])]) [] =
     Some (None, [(''a.go'', \<lparr>LoC = 0, NumRefs = 0, NumDefs = 0, NumRefsValid = 0, Language = ''Go''\<rparr>)])"
  by (simp add: walk_defs)

lemma Walk_of_one_line:
  "Walk example_scan (DirNode ''repo'' [FileNode ''a.go'' (Inr ''x'')]) [] =
     Some (None, [(''a.go'', \<lparr>LoC = 1, NumRefs = 0, NumDefs = 0, NumRefsValid = 0, Language = ''Go''\<rparr>)])"
  by (simp add: walk_defs)

lemma Walk_stops_at_b:
  "Walk example_scan
     (DirNode ''repo''
        [FileNode ''a.go'' (Inr ''x''),
         FileNode ''b.go'' (Inl (Other ''permission denied'')),
         FileNode ''c.go'' (Inr ''x'')]) [] =
     Some (Some (Other ''permission denied''),
           [(''a.go'', \<lparr>LoC = 1, NumRefs = 0, NumDefs = 0, NumRefsValid = 0, Language = ''Go''\<rparr>)])"
  by (simp add: walk_defs)

lemma load_one_def:
  "loadRules bdfs_one_def [GraphUnitRule ''a.json'' example_unit] \<lparr>defKeys = {}, data = [], logged = []\<rparr>
     = (None,
        \<lparr>defKeys = {\<lparr>Repo = [], UnitType = ''GoPackage'', Unit = ''a'', Path = ''F''\<rparr>},
         data = [\<lparr>Defs = [\<lparr>Def_DefKey = \<lparr>Repo = [], UnitType = [], Unit = [], Path = ''F''\<rparr>,
                            Def_File = ''a.go''\<rparr>],
                  Refs = []\<rparr>],
         logged = []\<rparr>)"
  by (simp add: load_defs bdfs_one_def_def)

lemma load_external_ref:
  "loadRules bdfs_external_ref [GraphUnitRule ''a.json'' example_unit] \<lparr>defKeys = {}, data = [], logged = []\<rparr>
     = (None,
        \<lparr>defKeys = {},
         data = [\<lparr>Defs = [],
                  Refs = [\<lparr>DefRepo = [], DefUnitType = ''GoPackage'', DefUnit = ''y'',
                            DefPath = ''F'', Ref_File = ''a.go''\<rparr>]\<rparr>],
         logged = []\<rparr>)"
  by (simp add: load_defs bdfs_external_ref_def)

lemma fold_one_def:
  "foldData {\<lparr>Repo = [], UnitType = ''GoPackage'', Unit = ''a'', Path = ''F''\<rparr>}
      [(''a.go'', \<lparr>LoC = 0, NumRefs = 0, NumDefs = 0, NumRefsValid = 0, Language = ''Go''\<rparr>)]
      [\<lparr>Defs = [\<lparr>Def_DefKey = \<lparr>Repo = [], UnitType = [], Unit = [], Path = ''F''\<rparr>,
                  Def_File = ''a.go''\<rparr>],
        Refs = []\<rparr>]
     = [(''a.go'', \<lparr>LoC = 0, NumRefs = 0, NumDefs = 1, NumRefsValid = 0, Language = ''Go''\<rparr>)]"
  by (simp add: fold_defs)

lemma fold_external_ref:
  "foldData {}
      [(''a.go'', \<lparr>LoC = 1, NumRefs = 0, NumDefs = 0, NumRefsValid = 0, Language = ''Go''\<rparr>)]
      [\<lparr>Defs = [],
        Refs = [\<lparr>DefRepo = [], DefUnitType = ''GoPackage'', DefUnit = ''y'',
                  DefPath = ''F'', Ref_File = ''a.go''\<rparr>]\<rparr>]
     = [(''a.go'', \<lparr>LoC = 1, NumRefs = 1, NumDefs = 0, NumRefsValid = 0, Language = ''Go''\<rparr>)]"
  by (simp add: fold_defs)

lemma emit_zero_LoC:
  "emit Finite (computeStats Finite
      [(''a.go'', \<lparr>LoC = 0, NumRefs = 0, NumDefs = 1, NumRefsValid = 0, Language = ''Go''\<rparr>)])
   = [(''Go'', \<lparr>FileScore = Finite 1, RefScore = Finite (- 1), TokDensity = PosInf,
                 UncoveredFiles = []\<rparr>)]"
  by (simp add: stats_defs)

lemma emit_one_line:
  "emit Finite (computeStats Finite
      [(''a.go'', \<lparr>LoC = 1, NumRefs = 0, NumDefs = 0, NumRefsValid = 0, Language = ''Go''\<rparr>)])
   = [(''Go'', \<lparr>FileScore = Finite 0, RefScore = Finite (- 1), TokDensity = Finite 0,
                 UncoveredFiles = [''a.go'']\<rparr>)]"
  by (simp add: stats_defs)

lemma emit_external_ref:
  "emit Finite (computeStats Finite
      [(''a.go'', \<lparr>LoC = 1, NumRefs = 1, NumDefs = 0, NumRefsValid = 0, Language = ''Go''\<rparr>)])
   = [(''Go'', \<lparr>FileScore = Finite 0, RefScore = Finite 0, TokDensity = Finite 1,
                 UncoveredFiles = [''a.go'']\<rparr>)]"
  by (simp add: stats_defs)

section \<open>The quotients of the coverage record\<close>

text \<open>
  A quotient of two converted counters whose divisor is zero is not-a-number for a zero
  dividend and the positive infinity otherwise; \<^verbatim>\<open>divideSentinel\<close> replaces the first by
  the sentinel and returns the second.
\<close>

lemma fdiv_zero_divisor:
  "fdiv rnd (float64_of_nat n) (float64_of_nat 0) = (if n = 0 then NaN else PosInf)"
  by (simp add: float64_of_nat_def)

lemma divideSentinel_zero_divisor:
  "divideSentinel rnd (float64_of_nat n) (float64_of_nat 0) (Finite (- 1)) =
     (if n = 0 then Finite (- 1) else PosInf)"
  by (simp add: divideSentinel_def IsNaN_def fdiv_zero_divisor Let_def)

lemma TokDensity_zero_loc:
  "loc s = 0 \<Longrightarrow>
     TokDensity (langCoverage rnd s) = (if numDefs s + numRefs s = 0 then Finite (- 1) else PosInf)"
  using divideSentinel_zero_divisor [of rnd "numDefs s + numRefs s"]
  by (simp add: langCoverage_def)

lemma RefScore_zero_numRefs:
  "numRefs s = 0 \<Longrightarrow>
     RefScore (langCoverage rnd s) = (if numRefsValid s = 0 then Finite (- 1) else PosInf)"
  using divideSentinel_zero_divisor [of rnd "numRefsValid s"]
  by (simp add: langCoverage_def)

text \<open>
  C1: in every language bucket of the emitted mapping, each of the three quotients
  (file-score, reference-score, token-density) is the sentinel \<open>-1\<close> whenever its divisor
  is zero, and never not-a-number or an infinity. The program does not do this for the
  token-density: for the repository whose only file \<^verbatim>\<open>a.go\<close> has zero bytes, and whose
  artifact declares one definition in \<^verbatim>\<open>a.go\<close>, the bucket of Go has zero lines and one
  definition, and \<^verbatim>\<open>divideSentinel(1, 0, -1)\<close> is the positive infinity
  (\<open>TokDensity_zero_loc\<close> is the general fact).
\<close>

theorem coverage_TokDensity_infinite:
  "coverage Finite example_scan world_empty_file =
     Some ([], Inr [(''Go'', \<lparr>FileScore = Finite 1, RefScore = Finite (- 1), TokDensity = PosInf,
                             UncoveredFiles = []\<rparr>)])"
  unfolding coverage_def world_empty_file_def
  by (simp only: case_simps Walk_of_empty_file load_one_def fold_one_def emit_zero_LoC)

section \<open>The line count\<close>

lemma IndexByte_None: "IndexByte xs c = None \<longleftrightarrow> c \<notin> set xs"
  by (induction xs) auto

lemma IndexByte_Some:
  "IndexByte xs c = Some p \<Longrightarrow> p < length xs \<and> xs ! p = c"
proof (induction xs arbitrary: p)
  case Nil
  then show ?case by simp
next
  case (Cons x xs)
  show ?case
  proof (cases "x = c")
    case True
    with Cons.prems show ?thesis by simp
  next
    case False
    with Cons.prems obtain q where q: "IndexByte xs c = Some q" "p = Suc q"
      by auto
    with Cons.IH [of q] show ?thesis by simp
  qed
qed

lemma last_take_Suc: "p < length xs \<Longrightarrow> last (take (Suc p) xs) = xs ! p"
  by (simp add: take_Suc_conv_app_nth)

text \<open>
  What the loop of \<^verbatim>\<open>numLines\<close> adds to \<open>count\<close> from offset \<open>start\<close> on: one for every
  segment of the rest that ends in a newline and is not blank.
\<close>

lemma numLines_loop_eq:
  "start \<le> length d \<Longrightarrow>
   numLines_loop d start (IndexByte (drop start d) newline) c =
     c + length (filter (\<lambda>l. isNotBlank l \<and> terminated l) (segments (drop start d)))"
proof (induction "length d - start" arbitrary: start c rule: less_induct)
  case less
  show ?case
  proof (cases "IndexByte (drop start d) newline")
    case None
    then have "newline \<notin> set (drop start d)" by (simp add: IndexByte_None)
    then have "\<not> terminated (drop start d)"
      unfolding terminated_def using last_in_set [of "drop start d"] by metis
    with None show ?thesis
      by (subst numLines_loop.simps, subst segments.simps) simp
  next
    case (Some p)
    from IndexByte_Some [OF Some]
    have p: "p < length (drop start d)" and nl: "drop start d ! p = newline" by simp_all
    then have lt: "start < length d" by simp
    let ?l = "take (Suc p) (drop start d)"
    have ended: "terminated ?l"
      using p nl by (simp add: terminated_def last_take_Suc)
    have start': "start + Suc p \<le> length d" using p by simp
    have dec: "length d - (start + Suc p) < length d - start" using lt by simp
    have rest: "drop (Suc p) (drop start d) = drop (start + Suc p) d"
      by (simp add: add.commute)
    have IH: "numLines_loop d (start + Suc p) (IndexByte (drop (start + Suc p) d) newline)
          (if isNotBlank ?l then c + 1 else c)
       = (if isNotBlank ?l then c + 1 else c) +
         length (filter (\<lambda>l. isNotBlank l \<and> terminated l) (segments (drop (start + Suc p) d)))"
      using less.hyps [OF dec start'] .
    have ne: "drop start d \<noteq> []" using p by auto
    have seg: "segments (drop start d) = ?l # segments (drop (start + Suc p) d)"
      using Some ne rest by (subst segments.simps) simp
    have loop: "numLines_loop d start (Some p) c =
        numLines_loop d (start + Suc p) (IndexByte (drop (start + Suc p) d) newline)
          (if isNotBlank ?l then c + 1 else c)"
      using lt by (subst numLines_loop.simps) (simp add: slice_def Let_def)
    show ?thesis
      using Some loop IH seg ended by simp
  qed
qed

text \<open>
  The count of \<^verbatim>\<open>numLines\<close> on stripped data: zero for no data, and otherwise one more
  than the number of newline-terminated lines that are not blank, whether or not a
  newline-less rest follows them and whether or not that rest is blank.
\<close>

lemma countLines_eq:
  "countLines d =
     (if d = [] then 0
      else 1 + length (filter (\<lambda>l. isNotBlank l \<and> terminated l) (segments d)))"
  using numLines_loop_eq [of 0 d 1]
  by (simp add: countLines_def)

text \<open>
  C2: the count that \<^verbatim>\<open>numLines\<close> returns equals the number of segments of the stripped
  data (its newline-terminated lines and, if there is one, the newline-less rest) that
  have a non-whitespace byte. The program counts one more whenever the stripped data
  ends in a newline or in a blank rest: for the two bytes \<^verbatim>\<open>a\n\<close>, which have one
  segment, it returns two.
\<close>

theorem numLines_counts_one_too_many:
  "numLines example_scan [CHR ''a'', newline] = Some 2 \<and>
   spec_lineCount [CHR ''a'', newline] = 1"
  by (simp add: numLines_def stripComments_def slice_checked_def slice_def countLines_def
      example_scan_def newline_def Comment_def Ident_def IsSpace_def spec_lineCount_def)

section \<open>The per-file decision\<close>

text \<open>
  C3, as the program has it: for a file of the inventory whose line count is zero the
  quotient is a division of floats, which does not trap. With no definition and no valid
  reference folded into the file it is not-a-number, the comparison with the threshold
  is false, and the file is judged not covered: it is appended to the uncovered files
  of its language and not added to the covered-file count. With at least one definition
  or valid reference the quotient is the positive infinity, which exceeds the threshold,
  and the file is counted as covered.
\<close>

theorem zero_LoC_file_decision:
  "LoC datum = 0 \<Longrightarrow>
     fdiv rnd (float64_of_nat (NumDefs datum + NumRefsValid datum)) (float64_of_nat (LoC datum)) =
       (if NumDefs datum + NumRefsValid datum = 0 then NaN else PosInf) \<and>
     fileCovered rnd datum = (0 < NumDefs datum + NumRefsValid datum) \<and>
     numIndexedFiles (addFile rnd file datum s) =
       numIndexedFiles s + (if 0 < NumDefs datum + NumRefsValid datum then 1 else 0) \<and>
     uncoveredFiles (addFile rnd file datum s) =
       uncoveredFiles s @ (if 0 < NumDefs datum + NumRefsValid datum then [] else [file])"
proof -
  assume z: "LoC datum = 0"
  have q: "fdiv rnd (float64_of_nat (NumDefs datum + NumRefsValid datum)) (float64_of_nat (LoC datum)) =
       (if NumDefs datum + NumRefsValid datum = 0 then NaN else PosInf)"
    using z fdiv_zero_divisor [of rnd "NumDefs datum + NumRefsValid datum"] by simp
  have c: "fileCovered rnd datum = (0 < NumDefs datum + NumRefsValid datum)"
    using q by (simp add: fileCovered_def fileTokThresh_def)
  show ?thesis
    using q by (simp add: c addFile_def Let_def)
qed

theorem zero_LoC_file_decision_witness:
  "LoC \<lparr>LoC = 0, NumRefs = 3, NumDefs = 0, NumRefsValid = 0, Language = ''Go''\<rparr> = 0 \<and>
   \<not> fileCovered Finite \<lparr>LoC = 0, NumRefs = 3, NumDefs = 0, NumRefsValid = 0, Language = ''Go''\<rparr> \<and>
   uncoveredFiles
     (addFile Finite ''a.go'' \<lparr>LoC = 0, NumRefs = 3, NumDefs = 0, NumRefsValid = 0, Language = ''Go''\<rparr>
        langStats_zero) = [''a.go'']"
  using zero_LoC_file_decision
    [of "\<lparr>LoC = 0, NumRefs = 3, NumDefs = 0, NumRefsValid = 0, Language = ''Go''\<rparr>" Finite
        "''a.go''" langStats_zero]
  by (simp add: langStats_zero_def)

text \<open>
  C3, as the claim words it, fails: a Go file with no line and one definition is added
  to the covered-file count, and the uncovered files of Go stay empty.
\<close>

theorem zero_LoC_file_counted_covered:
  "computeStats Finite
     [(''a.go'', \<lparr>LoC = 0, NumRefs = 0, NumDefs = 1, NumRefsValid = 0, Language = ''Go''\<rparr>)]
   = [(''Go'', \<lparr>numFiles = 1, numIndexedFiles = 1, numDefs = 1, numRefs = 0, numRefsValid = 0,
                 uncoveredFiles = [], loc = 0\<rparr>)]"
  by (simp add: computeStats_def statsStep_def addFile_def fileCovered_def langStats_zero_def
      float64_of_nat_def fileTokThresh_def)

section \<open>Valid references\<close>

text \<open>
  The step of the aggregator for one reference whose file is in the inventory: the
  file's reference count goes up by one, and its valid-reference count does so when the
  reference, as the aggregator finds it, has a defining repository or a key among the
  definition keys.
\<close>

lemma foldRef_counts:
  "map_of cfd (Ref_File ref) = Some d \<Longrightarrow>
   map_of (foldRef keys cfd ref) (Ref_File ref) =
     Some (d\<lparr>NumRefs := NumRefs d + 1,
             NumRefsValid := NumRefsValid d +
               (if DefRepo ref \<noteq> [] \<or> Ref_DefKey ref \<in> keys then 1 else 0)\<rparr>)"
  by (simp add: foldRef_def map_of_map_entry Let_def)

text \<open>
  The loader has by then stored the normalized key back into every reference, and a
  normalized key has no repository: no reference that the aggregator finds has a
  defining repository.
\<close>

lemma parseGraphData_clears_DefRepo:
  assumes "parseGraphData bdfs graphFile u st = (e, st')"
    and "\<forall>item\<in>set (data st). \<forall>r\<in>set (Refs item). DefRepo r = []"
  shows "\<forall>item\<in>set (data st'). \<forall>r\<in>set (Refs item). DefRepo r = []"
  using assms
  by (auto simp: parseGraphData_def SetFromDefKey_def adjustDefKey_def Let_def
      split: sum.splits if_splits)

lemma loadTargets_clears_DefRepo:
  "loadTargets bdfs targets st = (e, st') \<Longrightarrow>
   \<forall>item\<in>set (data st). \<forall>r\<in>set (Refs item). DefRepo r = [] \<Longrightarrow>
   \<forall>item\<in>set (data st'). \<forall>r\<in>set (Refs item). DefRepo r = []"
proof (induction bdfs targets st rule: loadTargets.induct)
  case (1 bdfs st)
  then show ?case by simp
next
  case (2 bdfs target sourceUnit targets st)
  obtain e1 st1 where p: "parseGraphData bdfs target sourceUnit st = (e1, st1)"
    by (cases "parseGraphData bdfs target sourceUnit st")
  have c1: "\<forall>item\<in>set (data st1). \<forall>r\<in>set (Refs item). DefRepo r = []"
    using parseGraphData_clears_DefRepo [OF p "2.prems"(2)] .
  show ?case
  proof (cases e1)
    case None
    with 2 p c1 show ?thesis by simp
  next
    case (Some a)
    with 2 p c1 show ?thesis by simp
  qed
qed

lemma loadRules_clears_DefRepo:
  "loadRules bdfs rules st = (e, st') \<Longrightarrow>
   \<forall>item\<in>set (data st). \<forall>r\<in>set (Refs item). DefRepo r = [] \<Longrightarrow>
   \<forall>item\<in>set (data st'). \<forall>r\<in>set (Refs item). DefRepo r = []"
proof (induction bdfs rules st rule: loadRules.induct)
  case (1 bdfs st)
  then show ?case by simp
next
  case (2 bdfs target sourceUnit rules st)
  obtain e1 st1 where p: "parseGraphData bdfs target sourceUnit st = (e1, st1)"
    by (cases "parseGraphData bdfs target sourceUnit st")
  have c1: "\<forall>item\<in>set (data st1). \<forall>r\<in>set (Refs item). DefRepo r = []"
    using parseGraphData_clears_DefRepo [OF p "2.prems"(2)] .
  show ?case
  proof (cases e1)
    case None
    with 2 p c1 show ?thesis by simp
  next
    case (Some a)
    with 2 p c1 show ?thesis by simp
  qed
next
  case (3 bdfs targets rules st)
  obtain e1 st1 where p: "loadTargets bdfs targets st = (e1, st1)"
    by (cases "loadTargets bdfs targets st")
  have c1: "\<forall>item\<in>set (data st1). \<forall>r\<in>set (Refs item). DefRepo r = []"
    using loadTargets_clears_DefRepo [OF p "3.prems"(2)] .
  show ?case
  proof (cases e1)
    case None
    with 3 p c1 show ?thesis by simp
  next
    case (Some a)
    with 3 p c1 show ?thesis by simp
  qed
next
  case (4 bdfs rules st)
  then show ?case by simp
qed

text \<open>
  C4: a reference whose file is in the inventory is counted valid if and only if it
  carries a non-empty defining-repository field, or else its normalized key is among
  the definition keys. The program does not count a reference that carries a defining
  repository: the artifact's only reference, in \<^verbatim>\<open>a.go\<close>, names the repository
  \<^verbatim>\<open>github.com/x/y\<close>; the loader clears the field, no definition key matches, and the
  reference adds to the file's references and not to its valid references, so that the
  reference-score of Go is \<open>0\<close>.
\<close>

theorem external_reference_not_counted_valid:
  "loadRules bdfs_external_ref [GraphUnitRule ''a.json'' example_unit]
       \<lparr>defKeys = {}, data = [], logged = []\<rparr>
     = (None,
        \<lparr>defKeys = {},
         data = [\<lparr>Defs = [],
                  Refs = [\<lparr>DefRepo = [], DefUnitType = ''GoPackage'', DefUnit = ''y'',
                            DefPath = ''F'', Ref_File = ''a.go''\<rparr>]\<rparr>],
         logged = []\<rparr>) \<and>
   foldData {}
       [(''a.go'', \<lparr>LoC = 1, NumRefs = 0, NumDefs = 0, NumRefsValid = 0, Language = ''Go''\<rparr>)]
       [\<lparr>Defs = [],
         Refs = [\<lparr>DefRepo = [], DefUnitType = ''GoPackage'', DefUnit = ''y'',
                   DefPath = ''F'', Ref_File = ''a.go''\<rparr>]\<rparr>]
     = [(''a.go'', \<lparr>LoC = 1, NumRefs = 1, NumDefs = 0, NumRefsValid = 0, Language = ''Go''\<rparr>)] \<and>
   coverage Finite example_scan world_external_ref =
     Some ([], Inr [(''Go'', \<lparr>FileScore = Finite 0, RefScore = Finite 0, TokDensity = Finite 1,
                             UncoveredFiles = [''a.go'']\<rparr>)])"
proof (intro conjI)
  show "coverage Finite example_scan world_external_ref =
     Some ([], Inr [(''Go'', \<lparr>FileScore = Finite 0, RefScore = Finite 0, TokDensity = Finite 1,
                             UncoveredFiles = [''a.go'']\<rparr>)])"
    unfolding coverage_def world_external_ref_def
    by (simp only: case_simps Walk_of_one_line load_external_ref fold_external_ref
        emit_external_ref)
qed (rule load_external_ref, rule fold_external_ref)

section \<open>Errors of the loader and of the walk\<close>



text \<open>
  What \<^verbatim>\<open>coverage\<close> returns does not depend on the error that the walk returned: the
  inventory gathered up to the error is used as if the walk had ended.
\<close>

lemma coverage_ignores_walk_error:
  "Walk scan (tree w) [] = Some (Some err, cfd) \<Longrightarrow>
   Walk scan other_tree [] = Some (None, cfd) \<Longrightarrow>
   coverage rnd scan w = coverage rnd scan (w\<lparr>tree := other_tree\<rparr>)"
  by (simp add: coverage_def cong: sum.case_cong option.case_cong)

text \<open>
  C6: if reading a source file fails during the tree walk, the whole computation is
  aborted and reports the failure. The program does not do this: in the repository with
  the files \<^verbatim>\<open>a.go\<close>, \<^verbatim>\<open>b.go\<close> and \<^verbatim>\<open>c.go\<close>, of which \<^verbatim>\<open>b.go\<close> cannot be read, the walk
  stops at \<^verbatim>\<open>b.go\<close> and returns the error of the read, and \<^verbatim>\<open>coverage\<close> goes on with
  the inventory that holds \<^verbatim>\<open>a.go\<close> alone and returns a mapping and no error.
\<close>

theorem unreadable_file_not_reported:
  "Walk example_scan (tree world_unreadable_file) [] =
     Some (Some (Other ''permission denied''),
           [(''a.go'', \<lparr>LoC = 1, NumRefs = 0, NumDefs = 0, NumRefsValid = 0, Language = ''Go''\<rparr>)]) \<and>
   coverage Finite example_scan world_unreadable_file =
     Some ([], Inr [(''Go'', \<lparr>FileScore = Finite 0, RefScore = Finite (- 1), TokDensity = Finite 0,
                             UncoveredFiles = [''a.go'']\<rparr>)])"
  unfolding coverage_def world_unreadable_file_def
  by (simp only: case_simps Walk_stops_at_b loadRules.simps foldData_def foldl.simps
      emit_one_line simp_thms)

section \<open>Properties of key normalization\<close>

text \<open>
  C7: key normalization clears the repository field and fills an empty unit-type or
  unit-name from the owning unit's own type and name (the path is kept); hence two
  definitions whose keys have empty unit-type and unit-name, emitted by units that
  differ in type or in name, normalize to distinct keys.
\<close>

theorem adjustDefKey_fills_and_separates:
  "Repo (adjustDefKey k u) = '''' \<and>
   UnitType (adjustDefKey k u) = (if UnitType k = '''' then Type u else UnitType k) \<and>
   Unit (adjustDefKey k u) = (if Unit k = '''' then Name u else Unit k) \<and>
   Path (adjustDefKey k u) = Path k \<and>
   (UnitType k1 = '''' \<and> Unit k1 = '''' \<and> UnitType k2 = '''' \<and> Unit k2 = '''' \<and>
    (Type u1 \<noteq> Type u2 \<or> Name u1 \<noteq> Name u2)
      \<longrightarrow> adjustDefKey k1 u1 \<noteq> adjustDefKey k2 u2)"
proof -
  have fill: "\<And>key unit. UnitType key = '''' \<Longrightarrow> Unit key = '''' \<Longrightarrow>
      UnitType (adjustDefKey key unit) = Type unit \<and> Unit (adjustDefKey key unit) = Name unit"
    by (simp add: adjustDefKey_def Let_def)
  have sep: "UnitType k1 = '''' \<and> Unit k1 = '''' \<and> UnitType k2 = '''' \<and> Unit k2 = '''' \<and>
      (Type u1 \<noteq> Type u2 \<or> Name u1 \<noteq> Name u2) \<longrightarrow> adjustDefKey k1 u1 \<noteq> adjustDefKey k2 u2"
  proof (intro impI notI)
    assume h: "UnitType k1 = '''' \<and> Unit k1 = '''' \<and> UnitType k2 = '''' \<and> Unit k2 = '''' \<and>
      (Type u1 \<noteq> Type u2 \<or> Name u1 \<noteq> Name u2)"
    assume eq: "adjustDefKey k1 u1 = adjustDefKey k2 u2"
    from h fill [of k1 u1] fill [of k2 u2]
    have "UnitType (adjustDefKey k1 u1) = Type u1" "Unit (adjustDefKey k1 u1) = Name u1"
         "UnitType (adjustDefKey k2 u2) = Type u2" "Unit (adjustDefKey k2 u2) = Name u2"
      by simp_all
    with eq have "Type u1 = Type u2 \<and> Name u1 = Name u2" by simp
    with h show False by simp
  qed
  show ?thesis
    using sep by (simp add: adjustDefKey_def Let_def)
qed

theorem adjustDefKey_fills_and_separates_witness:
  "adjustDefKey \<lparr>Repo = ''r'', UnitType = '''', Unit = '''', Path = ''p''\<rparr> \<lparr>Type = ''GoPackage'', Name = ''A''\<rparr>
     \<noteq> adjustDefKey \<lparr>Repo = ''r'', UnitType = '''', Unit = '''', Path = ''p''\<rparr> \<lparr>Type = ''GoPackage'', Name = ''B''\<rparr>"
  using adjustDefKey_fills_and_separates
    [of "\<lparr>Repo = ''r'', UnitType = '''', Unit = '''', Path = ''p''\<rparr>" "\<lparr>Type = ''GoPackage'', Name = ''A''\<rparr>"
        "\<lparr>Repo = ''r'', UnitType = '''', Unit = '''', Path = ''p''\<rparr>"
        "\<lparr>Repo = ''r'', UnitType = '''', Unit = '''', Path = ''p''\<rparr>"
        "\<lparr>Type = ''GoPackage'', Name = ''A''\<rparr>" "\<lparr>Type = ''GoPackage'', Name = ''B''\<rparr>"]
  by simp

text \<open>
  C8: key normalization is idempotent: normalizing, for the same owning unit, a key that
  is already normalized returns it unchanged.
\<close>

theorem adjustDefKey_idempotent:
  "adjustDefKey (adjustDefKey k u) u = adjustDefKey k u"
  by (simp add: adjustDefKey_def Let_def)

section \<open>Properties of the cached local repository\<close>

lemma openLocalRepo_run_cached:
  "CacheLocalRepo v \<Longrightarrow> localRepo v \<noteq> None \<or> localRepoErr v \<noteq> None \<Longrightarrow>
     openLocalRepo_run later v = (replicate (length later) (localRepo v, localRepoErr v), v)"
  by (induction later) (auto simp: openLocalRepo_def)

lemma openLocalRepo_run_uncached:
  "\<not> CacheLocalRepo v \<Longrightarrow>
     openLocalRepo_run opens v =
       (map returned opens, v\<lparr>OpenRepo_calls := OpenRepo_calls v + length opens\<rparr>)"
  by (induction opens arbitrary: v) (auto simp: openLocalRepo_def)

lemma returned_not_nil: "fst (returned r) \<noteq> None \<or> snd (returned r) \<noteq> None"
  by (cases r) auto

text \<open>
  C10: with \<^verbatim>\<open>CacheLocalRepo\<close> true, in a process whose \<^verbatim>\<open>localRepo\<close> and
  \<^verbatim>\<open>localRepoErr\<close> are still \<^verbatim>\<open>nil\<close>, the first call of \<^verbatim>\<open>openLocalRepo\<close> calls
  \<^verbatim>\<open>OpenRepo\<close> and stores the pair it returns in the package's variables, and every
  later call returns that stored pair and does not call \<^verbatim>\<open>OpenRepo\<close>, whatever it would
  return by then: \<^verbatim>\<open>OpenRepo\<close> is called once. With \<^verbatim>\<open>CacheLocalRepo\<close> false, every call
  calls \<^verbatim>\<open>OpenRepo\<close> and returns what it returns at that time.
\<close>

theorem openLocalRepo_opens_once:
  "(CacheLocalRepo v \<and> localRepo v = None \<and> localRepoErr v = None \<longrightarrow>
      openLocalRepo_run (first # later) v =
        (replicate (Suc (length later)) (returned first),
         v\<lparr>localRepo := fst (returned first), localRepoErr := snd (returned first),
           OpenRepo_calls := OpenRepo_calls v + 1\<rparr>)) \<and>
   (\<not> CacheLocalRepo v \<longrightarrow>
      openLocalRepo_run opens v =
        (map returned opens, v\<lparr>OpenRepo_calls := OpenRepo_calls v + length opens\<rparr>))"
proof (intro conjI impI)
  assume h: "CacheLocalRepo v \<and> localRepo v = None \<and> localRepoErr v = None"
  let ?v' = "v\<lparr>localRepo := fst (returned first), localRepoErr := snd (returned first),
           OpenRepo_calls := OpenRepo_calls v + 1\<rparr>"
  have step: "openLocalRepo first v = (returned first, ?v')"
    using h by (simp add: openLocalRepo_def)
  have "CacheLocalRepo ?v'" using h by simp
  moreover have "localRepo ?v' \<noteq> None \<or> localRepoErr ?v' \<noteq> None"
    using returned_not_nil [of first] by simp
  ultimately have "openLocalRepo_run later ?v' =
      (replicate (length later) (localRepo ?v', localRepoErr ?v'), ?v')"
    by (rule openLocalRepo_run_cached)
  then show "openLocalRepo_run (first # later) v =
      (replicate (Suc (length later)) (returned first), ?v')"
    using step by simp
next
  assume "\<not> CacheLocalRepo v"
  then show "openLocalRepo_run opens v =
        (map returned opens, v\<lparr>OpenRepo_calls := OpenRepo_calls v + length opens\<rparr>)"
    by (rule openLocalRepo_run_uncached)
qed

theorem openLocalRepo_opens_once_witness:
  "openLocalRepo_run [Inr ''/repo'', Inl (Other ''not a directory''), Inr ''/elsewhere'']
      \<lparr>localRepo = None, localRepoErr = None, CacheLocalRepo = True, OpenRepo_calls = 0\<rparr>
    = ([(Some ''/repo'', None), (Some ''/repo'', None), (Some ''/repo'', None)],
       \<lparr>localRepo = Some ''/repo'', localRepoErr = None, CacheLocalRepo = True, OpenRepo_calls = 1\<rparr>) \<and>
   openLocalRepo_run [Inr ''/repo'', Inl (Other ''not a directory''), Inr ''/elsewhere'']
      \<lparr>localRepo = None, localRepoErr = None, CacheLocalRepo = False, OpenRepo_calls = 0\<rparr>
    = ([(Some ''/repo'', None), (None, Some (Other ''not a directory'')), (Some ''/elsewhere'', None)],
       \<lparr>localRepo = None, localRepoErr = None, CacheLocalRepo = False, OpenRepo_calls = 3\<rparr>)"
  using openLocalRepo_opens_once
      [of "\<lparr>localRepo = None, localRepoErr = None, CacheLocalRepo = True, OpenRepo_calls = 0\<rparr>"
          "Inr ''/repo''" "[Inl (Other ''not a directory''), Inr ''/elsewhere'']" "[]"]
    openLocalRepo_opens_once
      [of "\<lparr>localRepo = None, localRepoErr = None, CacheLocalRepo = False, OpenRepo_calls = 0\<rparr>"
          "Inr ''/repo''" "[]" "[Inr ''/repo'', Inl (Other ''not a directory''), Inr ''/elsewhere'']"]
  by (simp add: numeral_3_eq_3)

end
